theory Spec2Isabelle
  imports Main "HOL-Library.Sublist"
begin

section \<open>Data model (src/main.py, SQLAlchemy models and request schemas)\<close>

text \<open>
  Python strings are modelled as \<open>string\<close>; a character stands for one code point of the
  Latin-1 range.  Timestamps (\<open>datetime.utcnow()\<close>) are natural numbers.
\<close>

record user =
  u_id :: string

record conversation =
  c_id :: string
  c_title :: string
  c_userId :: string
  c_createdAt :: nat

record message =
  m_id :: string
  m_role :: string
  m_content :: string
  m_conversationId :: string
  m_createdAt :: nat

record ChatRequest =
  req_user_id :: string
  conv_id :: string
  prompt :: string

text \<open>The database: the rows of the Conversation and Message tables, in insertion order.\<close>

record db =
  conversations :: "conversation list"
  messages :: "message list"

text \<open>
  What Python code raises.  An instance of the \<open>Exception\<close> class is carried as its
  message \<open>str(e)\<close> (type \<open>exn\<close>); a raise outside that class (\<open>asyncio.CancelledError\<close>
  when the task is cancelled, \<open>GeneratorExit\<close> when the consumer closes the generator,
  \<open>KeyboardInterrupt\<close>) is carried as the name of its class.  An \<open>except Exception\<close>
  clause catches the first kind only.  A request handler fails with an \<open>HTTPException\<close>
  (status code and detail) or with a raise nothing handles.
\<close>

type_synonym exn = string

datatype raised = Exception exn | BaseException string

datatype error = HTTPException nat string | Unhandled raised

text \<open>
  The environment of one database write: the identifier \<open>uuid.uuid4()\<close> returns, the clock
  value \<open>datetime.utcnow()\<close> returns, and whether \<open>await db.commit()\<close> raises (and what).
\<close>

record io =
  uuid4 :: string
  utcnow :: nat
  commit_fault :: "raised option"

section \<open>Python string operations\<close>

text \<open>\<open>str.isspace\<close> on one character of the Latin-1 range.\<close>

definition py_isspace :: "char \<Rightarrow> bool" where
  "py_isspace c = ((of_char c :: nat) \<in> {9, 10, 11, 12, 13, 28, 29, 30, 31, 32, 133, 160})"

text \<open>\<open>s.strip()\<close>: whitespace removed at both ends.\<close>

definition py_strip :: "string \<Rightarrow> string" where
  "py_strip s = rev (dropWhile py_isspace (rev (dropWhile py_isspace s)))"

text \<open>\<open>s.replace(c, "")\<close> for a one-character \<open>c\<close>: every occurrence is removed.\<close>

definition py_remove :: "char \<Rightarrow> string \<Rightarrow> string" where
  "py_remove c s = filter (\<lambda>x. x \<noteq> c) s"

definition dquote :: char where
  "dquote = CHR 0x22"

definition squote :: char where
  "squote = CHR 0x27"

definition newline :: char where
  "newline = CHR 0x0A"

section \<open>Title clean-up (generate_conversation_title, lines 493-496)\<close>

text \<open>
  \<^verbatim>\<open>title = title.replace('"', '').replace("'", "").strip()\<close>
  \<^verbatim>\<open>if len(title) > 50: title = title[:47] + "..."\<close>
\<close>

definition unquoted :: "string \<Rightarrow> string" where
  "unquoted title = py_strip (py_remove squote (py_remove dquote title))"

definition clean_title :: "string \<Rightarrow> string" where
  "clean_title title =
     (let t = unquoted title
      in if length t > 50 then take 47 t @ ''...'' else t)"

text \<open>
  The clean-up as the specification words it: quote characters and whitespace are
  stripped at the two ends only, and the interior is kept.
\<close>

definition spec_strippable :: "char \<Rightarrow> bool" where
  "spec_strippable c = (c = dquote \<or> c = squote \<or> py_isspace c)"

definition spec_clean_title :: "string \<Rightarrow> string" where
  "spec_clean_title title =
     (let t = rev (dropWhile spec_strippable (rev (dropWhile spec_strippable title)))
      in if length t > 50 then take 47 t @ ''...'' else t)"

section \<open>Database access\<close>

text \<open>
  Reads are taken to succeed; a write fails when its \<open>db.commit()\<close> raises, and then
  leaves the tables as they were.  Rows with equal \<open>createdAt\<close> keep their insertion order
  under \<open>order_by\<close>.
\<close>

text \<open>\<open>result.scalar_one_or_none()\<close>: no row, the one row, or an exception for several.\<close>

definition scalar_one_or_none :: "'a list \<Rightarrow> raised + 'a option" where
  "scalar_one_or_none rows =
     (case rows of
        [] \<Rightarrow> Inr None
      | [r] \<Rightarrow> Inr (Some r)
      | _ \<Rightarrow> Inl (Exception ''Multiple rows were found when one or none was required''))"

text \<open>
  \<^verbatim>\<open>select(Message).where(Message.conversationId == conv_id).order_by(Message.createdAt)\<close>
\<close>

definition select_messages :: "db \<Rightarrow> string \<Rightarrow> message list" where
  "select_messages d cid =
     sort_key m_createdAt (filter (\<lambda>m. m_conversationId m = cid) (messages d))"

definition save_message :: "db \<Rightarrow> string \<Rightarrow> string \<Rightarrow> string \<Rightarrow> io \<Rightarrow> raised + db" where
  "save_message d cid role content e =
     (let msg = \<lparr>m_id = uuid4 e, m_role = role, m_content = content,
                 m_conversationId = cid, m_createdAt = utcnow e\<rparr>
      in case commit_fault e of
           Some failure \<Rightarrow> Inl failure
         | None \<Rightarrow> Inr (d\<lparr>messages := messages d @ [msg]\<rparr>))"

definition get_or_create_conversation ::
  "db \<Rightarrow> string \<Rightarrow> string \<Rightarrow> io \<Rightarrow> raised + (db \<times> conversation)" where
  "get_or_create_conversation d user_id cid e =
     (case scalar_one_or_none (filter (\<lambda>c. c_id c = cid) (conversations d)) of
        Inl failure \<Rightarrow> Inl failure
      | Inr (Some conv) \<Rightarrow> Inr (d, conv)
      | Inr None \<Rightarrow>
          (let conv = \<lparr>c_id = cid, c_title = ''New Conversation'',
                       c_userId = user_id, c_createdAt = utcnow e\<rparr>
           in case commit_fault e of
                Some failure \<Rightarrow> Inl failure
              | None \<Rightarrow> Inr (d\<lparr>conversations := conversations d @ [conv]\<rparr>, conv)))"

section \<open>The completion provider\<close>

record TextMessage =
  tm_content :: string
  tm_source :: string

text \<open>
  A streamed event either carries a \<open>content\<close> string or has no such attribute (the final
  \<open>Response\<close>).  A stream yields its events in order and then is exhausted, or raises.
  The raise that ends it may be the provider's own failure or a signal that reaches the
  generator while it waits on the stream or on one of its \<open>yield\<close>s (the task is
  cancelled, the consumer closes the generator).
\<close>

datatype event = Content string | NoContent

record stream =
  events :: "event list"
  raises :: "raised option"

text \<open>The one-shot answer: the content of \<open>response.chat_message\<close>, when there is one.\<close>

datatype response = Response "string option"

section \<open>Rendering the history\<close>

definition role_label :: "string \<Rightarrow> string" where
  "role_label r = (if r = ''user'' then ''User'' else ''Assistant'')"

text \<open>\<^verbatim>\<open>f"{role}: {msg.content}\n"\<close>\<close>

definition render_line :: "message \<Rightarrow> string" where
  "render_line msg = role_label (m_role msg) @ '': '' @ m_content msg @ [newline]"

text \<open>chat_stream, lines 395-402: the variable \<open>conversation_context\<close>.\<close>

definition conversation_context :: "message list \<Rightarrow> string" where
  "conversation_context history_messages =
     (if history_messages \<noteq> []
      then foldl (\<lambda>acc msg. acc @ render_line msg)
             (''Previous conversation:'' @ [newline]) history_messages
           @ [newline] @ ''Current user message: ''
      else [])"

text \<open>generate_conversation_title, lines 468-472: the variable \<open>conversation_text\<close>.\<close>

definition conversation_text :: "message list \<Rightarrow> string" where
  "conversation_text msgs = foldl (\<lambda>acc msg. acc @ render_line msg) [] msgs"

section \<open>The chat turn (chat_stream and its event_generator)\<close>

record turn_env =
  conv_io :: io
  user_io :: io
  asst_io :: io
  on_messages_stream :: "TextMessage list \<Rightarrow> stream"

text \<open>\<^verbatim>\<open>f"data: {payload}\n\n"\<close>\<close>

definition sse :: "string \<Rightarrow> string" where
  "sse payload = ''data: '' @ payload @ [newline, newline]"

text \<open>
  The handler body up to its \<open>return\<close>: the conversation is fetched or created, the history
  is read and rendered into \<open>conversation_context\<close>, and the user's message is saved.  The
  handler returns the streaming response around \<open>event_generator\<close>, a closure over the
  handler's variables; the result below is what that closure starts from: the database
  and the two local variables.
\<close>

record turn_state =
  ts_db :: db
  ts_history_messages :: "message list"
  ts_conversation_context :: string

definition chat_stream :: "ChatRequest \<Rightarrow> user \<Rightarrow> db \<Rightarrow> turn_env \<Rightarrow> error + turn_state" where
  "chat_stream req current_user d env =
     (case get_or_create_conversation d (u_id current_user) (conv_id req) (conv_io env) of
        Inl failure \<Rightarrow> Inl (Unhandled failure)
      | Inr (d1, conv) \<Rightarrow>
          (let history_messages = select_messages d1 (conv_id req);
               context = conversation_context history_messages
           in case save_message d1 (conv_id req) ''user'' (prompt req) (user_io env) of
                Inl failure \<Rightarrow> Inl (Unhandled failure)
              | Inr d2 \<Rightarrow>
                  Inr \<lparr>ts_db = d2, ts_history_messages = history_messages,
                       ts_conversation_context = context\<rparr>))"

text \<open>
  The \<open>async for\<close> loop: the state is \<open>assistant_response\<close> and the frames yielded so far.
\<close>

fun relay :: "event list \<Rightarrow> string \<times> string list \<Rightarrow> string \<times> string list" where
  "relay [] st = st"
| "relay (Content c # evs) (assistant_response, out) =
     (if c \<noteq> [] then relay evs (assistant_response @ c, out @ [sse c])
      else relay evs (assistant_response, out))"
| "relay (NoContent # evs) st = relay evs st"

text \<open>
  What one run of the generator leaves: the frames it yielded, the database, the
  argument of \<open>on_messages_stream\<close>, and the raise that left the generator uncaught, if any.
\<close>

record generated =
  frames :: "string list"
  gen_db :: db
  provider_input :: "TextMessage list"
  escaped :: "raised option"

text \<open>
  Lines 430-432, the \<open>except Exception as e\<close> clause around the \<open>try\<close> body: an instance
  of \<open>Exception\<close> is turned into one \<open>Error:\<close> frame; any other raise is not caught, so
  the generator ends with the frames yielded so far and the raise propagates.
\<close>

definition except_Exception ::
  "raised \<Rightarrow> string list \<Rightarrow> db \<Rightarrow> TextMessage \<Rightarrow> generated" where
  "except_Exception r out d message =
     (case r of
        Exception failure \<Rightarrow>
          \<lparr>frames = out @ [sse (''Error: '' @ failure)], gen_db = d,
           provider_input = [message], escaped = None\<rparr>
      | BaseException cls \<Rightarrow>
          \<lparr>frames = out, gen_db = d, provider_input = [message], escaped = Some r\<rparr>)"

text \<open>
  The generator body.  It reads \<open>req\<close> from the closure and saves through a fresh session
  on the same database.
\<close>

definition event_generator :: "ChatRequest \<Rightarrow> turn_state \<Rightarrow> turn_env \<Rightarrow> generated" where
  "event_generator req st env =
     (let message = \<lparr>tm_content = prompt req, tm_source = ''user''\<rparr>;
          s = on_messages_stream env [message];
          (assistant_response, out) = relay (events s) ([], [])
      in case raises s of
           Some r \<Rightarrow> except_Exception r out (ts_db st) message
         | None \<Rightarrow>
             if assistant_response \<noteq> [] then
               (case save_message (ts_db st) (conv_id req) ''assistant'' assistant_response
                       (asst_io env) of
                  Inl r \<Rightarrow> except_Exception r out (ts_db st) message
                | Inr d' \<Rightarrow>
                    \<lparr>frames = out @ [sse ''[DONE]''], gen_db = d',
                     provider_input = [message], escaped = None\<rparr>)
             else \<lparr>frames = out @ [sse ''[DONE]''], gen_db = ts_db st,
                   provider_input = [message], escaped = None\<rparr>)"

text \<open>One turn: the handler, then the streaming response drives the generator.\<close>

definition chat_turn :: "ChatRequest \<Rightarrow> user \<Rightarrow> db \<Rightarrow> turn_env \<Rightarrow> error + generated" where
  "chat_turn req current_user d env =
     (case chat_stream req current_user d env of
        Inl failure \<Rightarrow> Inl failure
      | Inr st \<Rightarrow> Inr (event_generator req st env))"

section \<open>Title generation (generate_conversation_title)\<close>

text \<open>
  The environment of a title request: whether building the agent raises, what the
  provider call returns or raises, and whether the commit raises; these three are
  instances of \<open>Exception\<close>.
\<close>

record title_env =
  agent_fault :: "exn option"
  on_messages :: "TextMessage list \<Rightarrow> exn + response"
  title_commit_fault :: "exn option"

record titled =
  title :: string
  title_db :: db
  title_provider_input :: "TextMessage list option"

text \<open>Lines 457-463: the query with \<open>.limit(10)\<close>.\<close>

definition title_messages :: "db \<Rightarrow> string \<Rightarrow> message list" where
  "title_messages d cid = take 10 (select_messages d cid)"

text \<open>\<open>conversation.title = title\<close> and the commit: the row with that primary key changes.\<close>

definition set_title :: "db \<Rightarrow> conversation \<Rightarrow> string \<Rightarrow> db" where
  "set_title d conv t =
     d\<lparr>conversations :=
          map (\<lambda>c. if c_id c = c_id conv then c\<lparr>c_title := t\<rparr> else c) (conversations d)\<rparr>"

definition generate_conversation_title ::
  "string \<Rightarrow> user \<Rightarrow> db \<Rightarrow> title_env \<Rightarrow> error + titled" where
  "generate_conversation_title conversation_id current_user d env =
     (case scalar_one_or_none
             (filter (\<lambda>c. c_id c = conversation_id \<and> c_userId c = u_id current_user)
                (conversations d)) of
        Inl failure \<Rightarrow> Inl (Unhandled failure)
      | Inr None \<Rightarrow> Inl (HTTPException 404 ''Conversation not found'')
      | Inr (Some conv) \<Rightarrow>
          (let msgs = title_messages d conversation_id
           in if msgs = [] then
                Inr \<lparr>title = ''New Conversation'', title_db = d, title_provider_input = None\<rparr>
              else
                (let message =
                       \<lparr>tm_content = ''Generate a title for this conversation:''
                           @ [newline, newline] @ conversation_text msgs,
                        tm_source = ''user''\<rparr>
                 in case agent_fault env of
                      Some failure \<Rightarrow>
                        Inr \<lparr>title = ''Conversation'', title_db = d, title_provider_input = None\<rparr>
                    | None \<Rightarrow>
                        (case on_messages env [message] of
                           Inl failure \<Rightarrow>
                             Inr \<lparr>title = ''Conversation'', title_db = d,
                                  title_provider_input = Some [message]\<rparr>
                         | Inr (Response chat_message) \<Rightarrow>
                             (let t = (case chat_message of
                                         Some content \<Rightarrow> py_strip content
                                       | None \<Rightarrow> ''Conversation'');
                                  t = clean_title t
                              in case title_commit_fault env of
                                   Some failure \<Rightarrow>
                                     Inr \<lparr>title = ''Conversation'', title_db = d,
                                          title_provider_input = Some [message]\<rparr>
                                 | None \<Rightarrow>
                                     Inr \<lparr>title = t, title_db = set_title d conv t,
                                          title_provider_input = Some [message]\<rparr>)))))"

section \<open>Vocabulary of the properties\<close>

text \<open>
  The text chunks of a stream: the non-empty \<open>content\<close> strings of its events, in the
  order the provider yields them.
\<close>

definition chunks :: "event list \<Rightarrow> string list" where
  "chunks evs =
     filter (\<lambda>c. c \<noteq> [])
       (List.map_filter (\<lambda>ev. case ev of Content c \<Rightarrow> Some c | NoContent \<Rightarrow> None) evs)"

text \<open>
  A terminal marker on the wire: the \<open>[DONE]\<close> frame or a frame whose payload starts with
  \<open>Error: \<close>.
\<close>

definition terminal_marker :: "string \<Rightarrow> bool" where
  "terminal_marker f =
     (f = sse ''[DONE]''
      \<or> (prefix ''data: Error: '' f \<and> suffix [newline, newline] f))"

text \<open>The message the turn's request sends to the provider, and the rows the turn writes.\<close>

definition prompt_message :: "ChatRequest \<Rightarrow> TextMessage" where
  "prompt_message req = \<lparr>tm_content = prompt req, tm_source = ''user''\<rparr>"

definition user_row :: "ChatRequest \<Rightarrow> turn_env \<Rightarrow> message" where
  "user_row req env =
     \<lparr>m_id = uuid4 (user_io env), m_role = ''user'', m_content = prompt req,
      m_conversationId = conv_id req, m_createdAt = utcnow (user_io env)\<rparr>"

definition assistant_row :: "ChatRequest \<Rightarrow> turn_env \<Rightarrow> string \<Rightarrow> message" where
  "assistant_row req env content =
     \<lparr>m_id = uuid4 (asst_io env), m_role = ''assistant'', m_content = content,
      m_conversationId = conv_id req, m_createdAt = utcnow (asst_io env)\<rparr>"

text \<open>The conversation a request names, as each of the two handlers looks it up.\<close>

definition find_conversation :: "db \<Rightarrow> string \<Rightarrow> raised + conversation option" where
  "find_conversation d cid =
     scalar_one_or_none (filter (\<lambda>c. c_id c = cid) (conversations d))"

definition find_owned_conversation :: "db \<Rightarrow> string \<Rightarrow> user \<Rightarrow> raised + conversation option" where
  "find_owned_conversation d cid u =
     scalar_one_or_none (filter (\<lambda>c. c_id c = cid \<and> c_userId c = u_id u) (conversations d))"

text \<open>The one-shot request of the title pipeline (line 484).\<close>

definition title_request :: "message list \<Rightarrow> TextMessage" where
  "title_request msgs =
     \<lparr>tm_content = ''Generate a title for this conversation:''
         @ [newline, newline] @ conversation_text msgs,
      tm_source = ''user''\<rparr>"

text \<open>
  The provider's context as the specification words it: the rendered history followed
  by the new prompt.  The rendering is the handler's own \<open>conversation_context\<close>.
\<close>

definition spec_context :: "message list \<Rightarrow> string \<Rightarrow> string" where
  "spec_context history_messages p = conversation_context history_messages @ p"

section \<open>Example inputs\<close>

definition alice :: user where
  "alice = \<lparr>u_id = ''alice''\<rparr>"

definition mallory :: user where
  "mallory = \<lparr>u_id = ''mallory''\<rparr>"

definition conv1 :: conversation where
  "conv1 = \<lparr>c_id = ''c1'', c_title = ''Old title'', c_userId = ''alice'', c_createdAt = 1\<rparr>"

definition db_empty :: db where
  "db_empty = \<lparr>conversations = [conv1], messages = []\<rparr>"

definition db_history :: db where
  "db_history =
     \<lparr>conversations = [conv1],
      messages =
        [\<lparr>m_id = ''m2'', m_role = ''assistant'', m_content = ''Hello!'',
          m_conversationId = ''c1'', m_createdAt = 3\<rparr>,
         \<lparr>m_id = ''m1'', m_role = ''user'', m_content = ''Hi'',
          m_conversationId = ''c1'', m_createdAt = 2\<rparr>]\<rparr>"

definition req1 :: ChatRequest where
  "req1 = \<lparr>req_user_id = ''alice'', conv_id = ''c1'', prompt = ''How are you?''\<rparr>"

definition io_ok :: "string \<Rightarrow> nat \<Rightarrow> io" where
  "io_ok i t = \<lparr>uuid4 = i, utcnow = t, commit_fault = None\<rparr>"

definition env_with :: "stream \<Rightarrow> turn_env" where
  "env_with s =
     \<lparr>conv_io = io_ok [] 4, user_io = io_ok ''m3'' 5, asst_io = io_ok ''m4'' 6,
      on_messages_stream = (\<lambda>_. s)\<rparr>"

definition stream_fine :: stream where
  "stream_fine =
     \<lparr>events = [Content ''I am '', NoContent, Content [], Content ''fine''], raises = None\<rparr>"

definition stream_cut :: stream where
  "stream_cut = \<lparr>events = [Content ''I am ''], raises = Some (Exception ''connection lost'')\<rparr>"

definition stream_cancelled :: stream where
  "stream_cancelled =
     \<lparr>events = [Content ''I am ''], raises = Some (BaseException ''CancelledError'')\<rparr>"

definition stream_silent :: stream where
  "stream_silent = \<lparr>events = [NoContent, Content []], raises = None\<rparr>"

definition tenv_answer :: "string \<Rightarrow> title_env" where
  "tenv_answer t =
     \<lparr>agent_fault = None, on_messages = (\<lambda>_. Inr (Response (Some t))),
      title_commit_fault = None\<rparr>"

definition tenv_failing :: title_env where
  "tenv_failing =
     \<lparr>agent_fault = None, on_messages = (\<lambda>_. Inl ''rate limit exceeded''),
      title_commit_fault = None\<rparr>"

definition db_long :: db where
  "db_long =
     \<lparr>conversations = [conv1],
      messages =
        replicate 12 \<lparr>m_id = ''m0'', m_role = ''user'', m_content = ''again'',
                       m_conversationId = ''c1'', m_createdAt = 2\<rparr>\<rparr>"

definition st1 :: turn_state where
  "st1 = \<lparr>ts_db = db_history, ts_history_messages = [], ts_conversation_context = []\<rparr>"

definition env_save_down :: turn_env where
  "env_save_down =
     (env_with stream_fine)
       \<lparr>asst_io := \<lparr>uuid4 = ''m4'', utcnow = 6,
                    commit_fault = Some (Exception ''database is down'')\<rparr>\<rparr>"

definition env_save_cancelled :: turn_env where
  "env_save_cancelled =
     (env_with stream_fine)
       \<lparr>asst_io := \<lparr>uuid4 = ''m4'', utcnow = 6,
                    commit_fault = Some (BaseException ''CancelledError'')\<rparr>\<rparr>"

lemmas example_defs = alice_def mallory_def conv1_def db_empty_def db_history_def req1_def
  io_ok_def env_with_def stream_fine_def stream_cut_def stream_silent_def tenv_answer_def
  tenv_failing_def st1_def env_save_down_def db_long_def stream_cancelled_def
  env_save_cancelled_def

section \<open>Python string operations: basic facts\<close>

lemma py_strip_sublist: "sublist (py_strip s) s"
proof -
  have "suffix (dropWhile py_isspace (rev (dropWhile py_isspace s))) (rev (dropWhile py_isspace s))"
    by (rule suffix_dropWhile)
  then have "sublist (py_strip s) (dropWhile py_isspace s)"
    unfolding py_strip_def by (simp add: sublist_rev_left suffix_imp_sublist)
  moreover have "sublist (dropWhile py_isspace s) s"
    by (simp add: suffix_dropWhile)
  ultimately show ?thesis
    by (rule sublist_order.order.trans)
qed

lemma last_dropWhile_keep: "dropWhile P xs \<noteq> [] \<Longrightarrow> last (dropWhile P xs) = last xs"
  by (induction xs) (auto split: if_splits)

lemma py_strip_ends:
  assumes "py_strip s \<noteq> []"
  shows "\<not> py_isspace (hd (py_strip s)) \<and> \<not> py_isspace (last (py_strip s))"
proof -
  let ?u = "dropWhile py_isspace s"
  let ?v = "dropWhile py_isspace (rev ?u)"
  from assms have v: "?v \<noteq> []" by (simp add: py_strip_def)
  then have u: "?u \<noteq> []" by (auto simp del: dropWhile_eq_Nil_conv)
  have "last (py_strip s) = hd ?v"
    using v by (simp add: py_strip_def last_rev)
  moreover have "\<not> py_isspace (hd ?v)" using v by (rule hd_dropWhile)
  moreover have "hd (py_strip s) = last ?v"
    using v by (simp add: py_strip_def hd_rev)
  moreover have "last ?v = hd ?u"
    using v u by (simp add: last_dropWhile_keep last_rev)
  moreover have "\<not> py_isspace (hd ?u)" using u by (rule hd_dropWhile)
  ultimately show ?thesis by simp
qed

lemma py_strip_id:
  assumes "s \<noteq> []" "\<not> py_isspace (hd s)" "\<not> py_isspace (last s)"
  shows "py_strip s = s"
proof -
  have "dropWhile py_isspace s = s"
    using assms by (simp add: dropWhile_eq_self_iff)
  moreover have "dropWhile py_isspace (rev s) = rev s"
    using assms by (simp add: dropWhile_eq_self_iff hd_rev)
  ultimately show ?thesis by (simp add: py_strip_def)
qed

lemma py_strip_decomp:
  "\<exists>pre post. t = pre @ py_strip t @ post
      \<and> (\<forall>c \<in> set pre. py_isspace c) \<and> (\<forall>c \<in> set post. py_isspace c)"
proof -
  let ?u = "dropWhile py_isspace t"
  let ?pre = "takeWhile py_isspace t"
  let ?post = "rev (takeWhile py_isspace (rev ?u))"
  have "rev (takeWhile py_isspace (rev ?u) @ dropWhile py_isspace (rev ?u)) = rev (rev ?u)"
    by (simp only: takeWhile_dropWhile_id)
  then have "rev (dropWhile py_isspace (rev ?u)) @ ?post = ?u"
    by (simp only: rev_append rev_rev_ident)
  then have u: "?u = py_strip t @ ?post"
    by (simp only: py_strip_def)
  have "t = ?pre @ ?u" by simp
  with u have "t = ?pre @ py_strip t @ ?post" by simp
  moreover have "\<forall>c \<in> set ?pre. py_isspace c"
    by (auto dest: set_takeWhileD)
  moreover have "\<forall>c \<in> set ?post. py_isspace c"
    by (auto dest: set_takeWhileD)
  ultimately show ?thesis by blast
qed

lemma unquoted_decomp:
  "\<exists>pre post. filter (\<lambda>c. c \<noteq> dquote \<and> c \<noteq> squote) s = pre @ unquoted s @ post
      \<and> (\<forall>c \<in> set pre. py_isspace c) \<and> (\<forall>c \<in> set post. py_isspace c)"
proof -
  have "py_remove squote (py_remove dquote s) = filter (\<lambda>c. c \<noteq> dquote \<and> c \<noteq> squote) s"
    by (simp add: py_remove_def conj_commute)
  then show ?thesis
    using py_strip_decomp [of "py_remove squote (py_remove dquote s)"]
    by (simp add: unquoted_def)
qed

lemma py_strip_unique:
  assumes t: "t = pre @ r @ post"
    and pre: "\<forall>c \<in> set pre. py_isspace c"
    and post: "\<forall>c \<in> set post. py_isspace c"
    and ends: "r \<noteq> [] \<longrightarrow> \<not> py_isspace (hd r) \<and> \<not> py_isspace (last r)"
  shows "py_strip t = r"
proof (cases "r = []")
  case True
  with t pre post have "\<forall>c \<in> set t. py_isspace c" by auto
  then have d: "dropWhile py_isspace t = []" by simp
  show ?thesis unfolding py_strip_def d using True by simp
next
  case False
  with ends have h: "\<not> py_isspace (hd r)" and l: "\<not> py_isspace (last r)" by simp_all
  have "dropWhile py_isspace t = dropWhile py_isspace (r @ post)"
    using t pre by (simp add: dropWhile_append2)
  also have "\<dots> = r @ post"
    using False h by (simp add: dropWhile_eq_self_iff)
  finally have u: "dropWhile py_isspace t = r @ post" .
  have "dropWhile py_isspace (rev (r @ post)) = dropWhile py_isspace (rev r)"
    using post dropWhile_append2 [of "rev post" py_isspace "rev r"] by simp
  also have "\<dots> = rev r"
    using False l by (simp add: dropWhile_eq_self_iff hd_rev)
  finally show ?thesis using u by (simp add: py_strip_def)
qed

lemma unquoted_unique:
  assumes "filter (\<lambda>c. c \<noteq> dquote \<and> c \<noteq> squote) s = pre @ r @ post"
    and "\<forall>c \<in> set pre. py_isspace c"
    and "\<forall>c \<in> set post. py_isspace c"
    and "r \<noteq> [] \<longrightarrow> \<not> py_isspace (hd r) \<and> \<not> py_isspace (last r)"
  shows "unquoted s = r"
proof -
  have "py_remove squote (py_remove dquote s) = filter (\<lambda>c. c \<noteq> dquote \<and> c \<noteq> squote) s"
    by (simp add: py_remove_def conj_commute)
  with assms(1) have "py_remove squote (py_remove dquote s) = pre @ r @ post" by simp
  from py_strip_unique [OF this assms(2) assms(3) assms(4)] show ?thesis
    by (simp add: unquoted_def)
qed

lemma unquoted_subseq: "subseq (unquoted s) s"
proof -
  have "subseq (unquoted s) (py_remove squote (py_remove dquote s))"
    unfolding unquoted_def by (rule sublist_imp_subseq) (rule py_strip_sublist)
  moreover have "subseq (py_remove squote (py_remove dquote s)) s"
    unfolding py_remove_def
    by (rule subseq_order.trans [OF subseq_filter_left subseq_filter_left])
  ultimately show ?thesis by (rule subseq_order.trans)
qed

lemma unquoted_no_quotes: "dquote \<notin> set (unquoted s) \<and> squote \<notin> set (unquoted s)"
proof -
  have "set (unquoted s) \<subseteq> set (py_remove squote (py_remove dquote s))"
    unfolding unquoted_def using py_strip_sublist set_mono_sublist by blast
  then show ?thesis by (auto simp: py_remove_def)
qed

lemma unquoted_id:
  assumes "dquote \<notin> set s" "squote \<notin> set s" "s \<noteq> []"
    "\<not> py_isspace (hd s)" "\<not> py_isspace (last s)"
  shows "unquoted s = s"
proof -
  have "py_remove squote (py_remove dquote s) = s"
    using assms(1,2) by (auto simp: py_remove_def filter_id_conv)
  then show ?thesis using assms by (simp add: unquoted_def py_strip_id)
qed

section \<open>The streaming loop and the generator, case by case\<close>

lemma chunks_simps:
  "chunks [] = []"
  "chunks (Content c # evs) = (if c \<noteq> [] then c # chunks evs else chunks evs)"
  "chunks (NoContent # evs) = chunks evs"
  by (simp_all add: chunks_def List.map_filter_simps)

lemma relay_chunks:
  "relay evs (acc, out) = (acc @ concat (chunks evs), out @ map sse (chunks evs))"
  by (induction evs "(acc, out)" arbitrary: acc out rule: relay.induct)
     (simp_all add: chunks_simps)

lemma chunks_nonempty: "c \<in> set (chunks evs) \<Longrightarrow> c \<noteq> []"
  by (simp add: chunks_def)

lemma concat_chunks_Nil: "concat (chunks evs) = [] \<longleftrightarrow> chunks evs = []"
proof (cases "chunks evs")
  case Nil
  then show ?thesis by simp
next
  case (Cons c cs)
  then have "c \<noteq> []" using chunks_nonempty [of c evs] by simp
  with Cons show ?thesis by simp
qed

lemma event_generator_chunks:
  "event_generator req st env =
     (case raises (on_messages_stream env [prompt_message req]) of
        Some r \<Rightarrow>
          except_Exception r
            (map sse (chunks (events (on_messages_stream env [prompt_message req]))))
            (ts_db st) (prompt_message req)
      | None \<Rightarrow>
          if chunks (events (on_messages_stream env [prompt_message req])) = [] then
            \<lparr>frames = [sse ''[DONE]''], gen_db = ts_db st,
             provider_input = [prompt_message req], escaped = None\<rparr>
          else
            (case commit_fault (asst_io env) of
               Some r \<Rightarrow>
                 except_Exception r
                   (map sse (chunks (events (on_messages_stream env [prompt_message req]))))
                   (ts_db st) (prompt_message req)
             | None \<Rightarrow>
                 \<lparr>frames =
                    map sse (chunks (events (on_messages_stream env [prompt_message req])))
                    @ [sse ''[DONE]''],
                  gen_db = (ts_db st)\<lparr>messages := messages (ts_db st)
                    @ [assistant_row req env
                         (concat
                            (chunks (events (on_messages_stream env [prompt_message req]))))]\<rparr>,
                  provider_input = [prompt_message req], escaped = None\<rparr>))"
  by (simp add: event_generator_def prompt_message_def Let_def relay_chunks
      concat_chunks_Nil save_message_def assistant_row_def
      split: option.splits del: concat_eq_Nil_conv)

lemma event_generator_raise:
  assumes "raises (on_messages_stream env [prompt_message req]) = Some (Exception failure)"
  shows "event_generator req st env =
           \<lparr>frames = map sse (chunks (events (on_messages_stream env [prompt_message req])))
                       @ [sse (''Error: '' @ failure)],
            gen_db = ts_db st, provider_input = [prompt_message req], escaped = None\<rparr>"
  using assms by (simp add: event_generator_chunks except_Exception_def)

lemma event_generator_cancelled:
  assumes "raises (on_messages_stream env [prompt_message req]) = Some (BaseException cls)"
  shows "event_generator req st env =
           \<lparr>frames = map sse (chunks (events (on_messages_stream env [prompt_message req]))),
            gen_db = ts_db st, provider_input = [prompt_message req],
            escaped = Some (BaseException cls)\<rparr>"
  using assms by (simp add: event_generator_chunks except_Exception_def)

lemma event_generator_empty:
  assumes "raises (on_messages_stream env [prompt_message req]) = None"
    and "chunks (events (on_messages_stream env [prompt_message req])) = []"
  shows "event_generator req st env =
           \<lparr>frames = [sse ''[DONE]''], gen_db = ts_db st,
            provider_input = [prompt_message req], escaped = None\<rparr>"
  using assms by (simp add: event_generator_chunks)

lemma event_generator_save_fails:
  assumes "raises (on_messages_stream env [prompt_message req]) = None"
    and "chunks (events (on_messages_stream env [prompt_message req])) \<noteq> []"
    and "commit_fault (asst_io env) = Some (Exception failure)"
  shows "event_generator req st env =
           \<lparr>frames = map sse (chunks (events (on_messages_stream env [prompt_message req])))
                       @ [sse (''Error: '' @ failure)],
            gen_db = ts_db st, provider_input = [prompt_message req], escaped = None\<rparr>"
  using assms by (simp add: event_generator_chunks except_Exception_def)

lemma event_generator_save_cancelled:
  assumes "raises (on_messages_stream env [prompt_message req]) = None"
    and "chunks (events (on_messages_stream env [prompt_message req])) \<noteq> []"
    and "commit_fault (asst_io env) = Some (BaseException cls)"
  shows "event_generator req st env =
           \<lparr>frames = map sse (chunks (events (on_messages_stream env [prompt_message req]))),
            gen_db = ts_db st, provider_input = [prompt_message req],
            escaped = Some (BaseException cls)\<rparr>"
  using assms by (simp add: event_generator_chunks except_Exception_def)

lemma event_generator_done:
  assumes "raises (on_messages_stream env [prompt_message req]) = None"
    and "chunks (events (on_messages_stream env [prompt_message req])) \<noteq> []"
    and "commit_fault (asst_io env) = None"
  shows "event_generator req st env =
           \<lparr>frames = map sse (chunks (events (on_messages_stream env [prompt_message req])))
                       @ [sse ''[DONE]''],
            gen_db = (ts_db st)\<lparr>messages := messages (ts_db st)
               @ [assistant_row req env
                    (concat (chunks (events (on_messages_stream env [prompt_message req]))))]\<rparr>,
            provider_input = [prompt_message req], escaped = None\<rparr>"
  using assms by (simp add: event_generator_chunks)

lemma gen_db_extends:
  "set (messages (ts_db st)) \<subseteq> set (messages (gen_db (event_generator req st env)))"
  by (auto simp: event_generator_chunks except_Exception_def
      split: option.splits raised.splits)

lemma provider_input_is_prompt:
  "provider_input (event_generator req st env) = [prompt_message req]"
  by (simp add: event_generator_chunks except_Exception_def
      split: option.splits raised.splits)

lemma event_generator_reads_db_only:
  "ts_db st = ts_db st' \<Longrightarrow> event_generator req st env = event_generator req st' env"
  by (simp add: event_generator_chunks split: option.splits)

text \<open>The two terminal frames are markers on the wire.\<close>

lemma terminal_marker_done: "terminal_marker (sse ''[DONE]'')"
  by (simp add: terminal_marker_def)

lemma terminal_marker_error: "terminal_marker (sse (''Error: '' @ failure))"
  by (simp add: terminal_marker_def sse_def suffix_def)

section \<open>The handler up to the streaming response\<close>

lemma chat_stream_Inr:
  assumes "chat_stream req u d env = Inr st"
  shows "messages (ts_db st) = messages d @ [user_row req env]
       \<and> ts_history_messages st = select_messages d (conv_id req)
       \<and> ts_conversation_context st = conversation_context (select_messages d (conv_id req))"
  using assms
  by (auto simp: chat_stream_def get_or_create_conversation_def save_message_def Let_def
      user_row_def select_messages_def split: sum.splits option.splits prod.splits)

lemmas turn_defs = chat_turn_def chat_stream_def get_or_create_conversation_def
  find_conversation_def scalar_one_or_none_def save_message_def select_messages_def

lemma ex_turn_cut:
  "chat_turn req1 alice db_history (env_with stream_cut) =
     Inr \<lparr>frames = [sse ''I am '', sse ''Error: connection lost''],
          gen_db = db_history\<lparr>messages := messages db_history
                     @ [user_row req1 (env_with stream_cut)]\<rparr>,
          provider_input = [prompt_message req1], escaped = None\<rparr>"
  by (simp add: turn_defs example_defs event_generator_raise chunks_simps prompt_message_def
      user_row_def Let_def)

lemma conversation_context_nonempty:
  "history_messages \<noteq> [] \<Longrightarrow> conversation_context history_messages \<noteq> []"
  by (simp add: conversation_context_def)

section \<open>Title generation, case by case\<close>

lemmas title_defs = generate_conversation_title_def find_owned_conversation_def
  title_request_def

lemma title_cases:
  assumes "find_owned_conversation d cid u = Inr (Some conv)"
  shows "generate_conversation_title cid u d env =
     (if title_messages d cid = [] then
        Inr \<lparr>title = ''New Conversation'', title_db = d, title_provider_input = None\<rparr>
      else if agent_fault env \<noteq> None then
        Inr \<lparr>title = ''Conversation'', title_db = d, title_provider_input = None\<rparr>
      else
        (case on_messages env [title_request (title_messages d cid)] of
           Inl failure \<Rightarrow>
             Inr \<lparr>title = ''Conversation'', title_db = d,
                  title_provider_input = Some [title_request (title_messages d cid)]\<rparr>
         | Inr (Response chat_message) \<Rightarrow>
             if title_commit_fault env \<noteq> None then
               Inr \<lparr>title = ''Conversation'', title_db = d,
                    title_provider_input = Some [title_request (title_messages d cid)]\<rparr>
             else
               Inr \<lparr>title = clean_title (case chat_message of
                                           Some content \<Rightarrow> py_strip content
                                         | None \<Rightarrow> ''Conversation''),
                    title_db = set_title d conv
                                 (clean_title (case chat_message of
                                                 Some content \<Rightarrow> py_strip content
                                               | None \<Rightarrow> ''Conversation'')),
                    title_provider_input = Some [title_request (title_messages d cid)]\<rparr>))"
  using assms
  by (auto simp: title_defs Let_def split: sum.splits option.splits response.splits)

lemma sorted_select_messages: "sorted (map m_createdAt (select_messages d cid))"
  by (simp add: select_messages_def)

lemma set_select_messages:
  "set (select_messages d cid) = {m \<in> set (messages d). m_conversationId m = cid}"
  by (auto simp: select_messages_def)

lemma ex_owned: "find_owned_conversation db_history ''c1'' alice = Inr (Some conv1)"
  by (simp add: find_owned_conversation_def scalar_one_or_none_def example_defs)

lemma ex_owned_empty: "find_owned_conversation db_empty ''c1'' alice = Inr (Some conv1)"
  by (simp add: find_owned_conversation_def scalar_one_or_none_def example_defs)

lemma ex_owned_long: "find_owned_conversation db_long ''c1'' alice = Inr (Some conv1)"
  by (simp add: find_owned_conversation_def scalar_one_or_none_def example_defs)

lemma ex_history:
  "select_messages db_history ''c1'' =
     [\<lparr>m_id = ''m1'', m_role = ''user'', m_content = ''Hi'',
       m_conversationId = ''c1'', m_createdAt = 2\<rparr>,
      \<lparr>m_id = ''m2'', m_role = ''assistant'', m_content = ''Hello!'',
       m_conversationId = ''c1'', m_createdAt = 3\<rparr>]"
  by (simp add: select_messages_def example_defs)

lemmas string_eval = clean_title_def unquoted_def py_strip_def py_remove_def squote_def
  dquote_def py_isspace_def spec_clean_title_def spec_strippable_def

section \<open>The examples, evaluated\<close>

lemma ex_title_messages: "title_messages db_history ''c1'' \<noteq> []"
  by (simp add: title_messages_def ex_history)

lemma ex_long:
  "length (select_messages db_long ''c1'') = 12 \<and> length (title_messages db_long ''c1'') = 10"
  by (simp add: title_messages_def select_messages_def db_long_def)

lemma ex_fail: "generate_conversation_title ''c1'' alice db_history tenv_failing =
   Inr \<lparr>title = ''Conversation'', title_db = db_history,
        title_provider_input = Some [title_request (title_messages db_history ''c1'')]\<rparr>"
  by (simp add: title_cases [OF ex_owned] ex_title_messages tenv_failing_def)

lemma ex_answer: "generate_conversation_title ''c1'' alice db_history
      (tenv_answer (dquote # ''Greetings'' @ [dquote])) =
   Inr \<lparr>title = ''Greetings'',
        title_db = set_title db_history conv1 ''Greetings'',
        title_provider_input = Some [title_request (title_messages db_history ''c1'')]\<rparr>"
  by (simp add: title_cases [OF ex_owned] ex_title_messages tenv_answer_def string_eval)

lemma ex_set_title:
  "conversations (set_title db_history conv1 ''Greetings'') = [conv1\<lparr>c_title := ''Greetings''\<rparr>]"
  by (simp add: set_title_def db_history_def)

lemma ex_no_messages: "select_messages db_empty ''c1'' = []"
  by (simp add: select_messages_def db_empty_def)

lemma ex_empty: "generate_conversation_title ''c1'' alice db_empty tenv_failing =
   Inr \<lparr>title = ''New Conversation'', title_db = db_empty, title_provider_input = None\<rparr>"
  by (simp add: title_cases [OF ex_owned_empty] title_messages_def ex_no_messages)

section \<open>Title normalization\<close>

text \<open>
  C5 (as the code has it).  The clean-up removes every double and single quote character
  of the provider's answer, wherever it stands, and strips whitespace at both ends: the
  answer with its quotes filtered out is some whitespace, then the cleaned answer, then
  some whitespace, and the cleaned answer neither starts nor ends with whitespace; it is
  the only string of which this is true.  So
  every other character is kept, in order, and an answer without quotes and without outer
  whitespace is kept whole.  A cleaned answer longer than 50 characters becomes its first
  47 characters followed by three dots, 50 characters in all; a cleaned answer of at most
  50 characters is returned as it is.
\<close>

theorem clean_title_removes_all_quotes:
  "(\<exists>pre post. filter (\<lambda>c. c \<noteq> dquote \<and> c \<noteq> squote) s = pre @ unquoted s @ post
       \<and> (\<forall>c \<in> set pre. py_isspace c) \<and> (\<forall>c \<in> set post. py_isspace c))
   \<and> (\<forall>pre r post.
         filter (\<lambda>c. c \<noteq> dquote \<and> c \<noteq> squote) s = pre @ r @ post
         \<and> (\<forall>c \<in> set pre. py_isspace c) \<and> (\<forall>c \<in> set post. py_isspace c)
         \<and> (r \<noteq> [] \<longrightarrow> \<not> py_isspace (hd r) \<and> \<not> py_isspace (last r))
         \<longrightarrow> unquoted s = r)
   \<and> dquote \<notin> set (unquoted s) \<and> squote \<notin> set (unquoted s)
   \<and> subseq (unquoted s) s
   \<and> (unquoted s \<noteq> [] \<longrightarrow>
        \<not> py_isspace (hd (unquoted s)) \<and> \<not> py_isspace (last (unquoted s)))
   \<and> (dquote \<notin> set s \<and> squote \<notin> set s \<and> s \<noteq> []
        \<and> \<not> py_isspace (hd s) \<and> \<not> py_isspace (last s) \<longrightarrow> unquoted s = s)
   \<and> (length (unquoted s) > 50 \<longrightarrow>
        clean_title s = take 47 (unquoted s) @ ''...'' \<and> length (clean_title s) = 50)
   \<and> (length (unquoted s) \<le> 50 \<longrightarrow> clean_title s = unquoted s)"
proof -
  have "length (unquoted s) > 50 \<longrightarrow>
        clean_title s = take 47 (unquoted s) @ ''...'' \<and> length (clean_title s) = 50"
    by (simp add: clean_title_def Let_def)
  moreover have "length (unquoted s) \<le> 50 \<longrightarrow> clean_title s = unquoted s"
    by (simp add: clean_title_def Let_def)
  moreover have "unquoted s \<noteq> [] \<longrightarrow>
        \<not> py_isspace (hd (unquoted s)) \<and> \<not> py_isspace (last (unquoted s))"
    using py_strip_ends [of "py_remove squote (py_remove dquote s)"]
    by (simp add: unquoted_def)
  moreover have "\<forall>pre r post.
         filter (\<lambda>c. c \<noteq> dquote \<and> c \<noteq> squote) s = pre @ r @ post
         \<and> (\<forall>c \<in> set pre. py_isspace c) \<and> (\<forall>c \<in> set post. py_isspace c)
         \<and> (r \<noteq> [] \<longrightarrow> \<not> py_isspace (hd r) \<and> \<not> py_isspace (last r))
         \<longrightarrow> unquoted s = r"
    by (intro allI impI, elim conjE, rule unquoted_unique)
  ultimately show ?thesis
    using unquoted_decomp [of s] unquoted_no_quotes [of s] unquoted_subseq [of s]
      unquoted_id [of s]
    by blast
qed

theorem clean_title_removes_all_quotes_witness:
  "clean_title (dquote # ''Hello World'' @ [dquote]) = ''Hello World''
   \<and> clean_title (''  say '' @ [squote] @ ''hi'' @ [squote] @ '' now '') = ''say hi now''
   \<and> length (unquoted (replicate 60 CHR ''a'')) > 50
   \<and> unquoted (replicate 60 CHR ''a'') = replicate 60 CHR ''a''
   \<and> clean_title (replicate 60 CHR ''a'') = replicate 47 CHR ''a'' @ ''...''
   \<and> length (clean_title (replicate 60 CHR ''a'')) = 50"
  using clean_title_removes_all_quotes [of "dquote # ''Hello World'' @ [dquote]"]
    clean_title_removes_all_quotes [of "''  say '' @ [squote] @ ''hi'' @ [squote] @ '' now ''"]
    clean_title_removes_all_quotes [of "replicate 60 CHR ''a''"]
  by (simp add: string_eval)

text \<open>
  C5 as the specification words it (only the two ends are stripped, the interior is
  kept) fails on an answer with an apostrophe inside: the code drops it.
\<close>

theorem clean_title_interior_quote_counterexample:
  "clean_title (''It'' @ [squote] @ ''s late'') = ''Its late''
   \<and> spec_clean_title (''It'' @ [squote] @ ''s late'') = ''It'' @ [squote] @ ''s late''"
  by (simp add: string_eval)

section \<open>The chat turn\<close>

text \<open>
  C1.  When the provider's stream is exhausted without raising, an assistant message the
  turn stores has as content the concatenation, in order, of the text chunks the
  generator sent to the caller, and the frames sent are those chunks followed by the
  \<open>[DONE]\<close> frame; when there is a non-empty chunk and the save succeeds, that message is
  stored.
\<close>

theorem streamed_chunks_equal_saved_reply:
  assumes "raises (on_messages_stream env [prompt_message req]) = None"
  shows "(\<forall>m. messages (gen_db (event_generator req st env)) = messages (ts_db st) @ [m] \<longrightarrow>
            m_role m = ''assistant''
            \<and> m_content m = concat (chunks (events (on_messages_stream env [prompt_message req])))
            \<and> frames (event_generator req st env) =
                map sse (chunks (events (on_messages_stream env [prompt_message req])))
                @ [sse ''[DONE]''])
       \<and> (chunks (events (on_messages_stream env [prompt_message req])) \<noteq> []
            \<and> commit_fault (asst_io env) = None \<longrightarrow>
          messages (gen_db (event_generator req st env)) =
            messages (ts_db st)
            @ [assistant_row req env
                 (concat (chunks (events (on_messages_stream env [prompt_message req]))))])"
  using assms
  by (auto simp: event_generator_chunks except_Exception_def assistant_row_def
      split: option.splits raised.splits)

theorem streamed_chunks_equal_saved_reply_witness:
  "raises (on_messages_stream (env_with stream_fine) [prompt_message req1]) = None
   \<and> frames (event_generator req1 st1 (env_with stream_fine)) =
       [sse ''I am '', sse ''fine'', sse ''[DONE]'']
   \<and> messages (gen_db (event_generator req1 st1 (env_with stream_fine))) =
       messages db_history @ [assistant_row req1 (env_with stream_fine) ''I am fine'']"
proof -
  have h: "raises (on_messages_stream (env_with stream_fine) [prompt_message req1]) = None"
    by (simp add: env_with_def stream_fine_def)
  have c: "chunks (events (on_messages_stream (env_with stream_fine) [prompt_message req1]))
             = [''I am '', ''fine'']"
    by (simp add: env_with_def stream_fine_def chunks_simps)
  have io: "commit_fault (asst_io (env_with stream_fine)) = None"
    by (simp add: env_with_def io_ok_def)
  from streamed_chunks_equal_saved_reply [OF h, of st1] c io h show ?thesis
    by (simp add: st1_def)
qed

text \<open>
  C2.  Whenever a turn gets as far as the streaming response, the handler has already
  appended the user's message (role \<open>user\<close>, content the prompt) to the stored messages:
  the generator, which is what calls the provider, starts from a database that holds it,
  and the database after the turn still holds it, whatever the provider does.
\<close>

theorem user_message_saved_before_provider:
  assumes "chat_turn req u d env = Inr r"
  shows "\<exists>st. chat_stream req u d env = Inr st \<and> r = event_generator req st env
           \<and> messages (ts_db st) = messages d @ [user_row req env]
           \<and> user_row req env \<in> set (messages (gen_db r))"
proof -
  from assms obtain st where st: "chat_stream req u d env = Inr st"
    and r: "r = event_generator req st env"
    by (auto simp: chat_turn_def split: sum.splits)
  from chat_stream_Inr [OF st] have
    m: "messages (ts_db st) = messages d @ [user_row req env]" by simp
  then have "user_row req env \<in> set (messages (ts_db st))" by simp
  then have "user_row req env \<in> set (messages (gen_db r))"
    using gen_db_extends [of st req env] r by blast
  with m st r show ?thesis by blast
qed

theorem user_message_saved_before_provider_witness:
  "chat_turn req1 alice db_history (env_with stream_cut) =
     Inr \<lparr>frames = [sse ''I am '', sse ''Error: connection lost''],
          gen_db = db_history\<lparr>messages := messages db_history
                     @ [user_row req1 (env_with stream_cut)]\<rparr>,
          provider_input = [prompt_message req1], escaped = None\<rparr>
   \<and> user_row req1 (env_with stream_cut) \<in>
       set (messages (db_history\<lparr>messages := messages db_history
                     @ [user_row req1 (env_with stream_cut)]\<rparr>))"
  using user_message_saved_before_provider [OF ex_turn_cut] ex_turn_cut by simp

text \<open>
  C4 (as the code has it).  The frames of a turn are the text chunks, in order, followed
  by exactly one last frame when the stream is exhausted or an instance of \<open>Exception\<close> is
  raised: \<open>[DONE]\<close> after exhaustion and a successful (or skipped) save, \<open>Error: <message>\<close>
  when the stream or the save raises such an instance.  A raise outside the \<open>Exception\<close>
  class, on the stream or on the save, is not caught: the frames are the chunks alone, no
  marker follows, and the raise leaves the generator.  Whenever no raise leaves the
  generator, its last frame is a terminal marker.
\<close>

theorem one_marker_unless_uncaught:
  "frames (event_generator req st env) =
     map sse (chunks (events (on_messages_stream env [prompt_message req])))
     @ (case raises (on_messages_stream env [prompt_message req]) of
          Some (Exception failure) \<Rightarrow> [sse (''Error: '' @ failure)]
        | Some (BaseException cls) \<Rightarrow> []
        | None \<Rightarrow>
            if chunks (events (on_messages_stream env [prompt_message req])) = []
            then [sse ''[DONE]'']
            else (case commit_fault (asst_io env) of
                    Some (Exception failure) \<Rightarrow> [sse (''Error: '' @ failure)]
                  | Some (BaseException cls) \<Rightarrow> []
                  | None \<Rightarrow> [sse ''[DONE]'']))
   \<and> escaped (event_generator req st env) =
       (case raises (on_messages_stream env [prompt_message req]) of
          Some (Exception failure) \<Rightarrow> None
        | Some (BaseException cls) \<Rightarrow> Some (BaseException cls)
        | None \<Rightarrow>
            if chunks (events (on_messages_stream env [prompt_message req])) = []
            then None
            else (case commit_fault (asst_io env) of
                    Some (Exception failure) \<Rightarrow> None
                  | Some (BaseException cls) \<Rightarrow> Some (BaseException cls)
                  | None \<Rightarrow> None))
   \<and> (escaped (event_generator req st env) = None \<longrightarrow>
        frames (event_generator req st env) \<noteq> []
        \<and> terminal_marker (last (frames (event_generator req st env)))
        \<and> butlast (frames (event_generator req st env)) =
            map sse (chunks (events (on_messages_stream env [prompt_message req]))))
   \<and> (escaped (event_generator req st env) \<noteq> None \<longrightarrow>
        frames (event_generator req st env) =
          map sse (chunks (events (on_messages_stream env [prompt_message req]))))"
  by (auto simp: event_generator_chunks except_Exception_def terminal_marker_done
      terminal_marker_error [simplified] split: option.splits raised.splits)

theorem one_marker_unless_uncaught_witness:
  "frames (event_generator req1 st1 (env_with stream_fine)) =
     [sse ''I am '', sse ''fine'', sse ''[DONE]'']
   \<and> escaped (event_generator req1 st1 (env_with stream_fine)) = None
   \<and> frames (event_generator req1 st1 (env_with stream_cut)) =
     [sse ''I am '', sse ''Error: connection lost'']
   \<and> frames (event_generator req1 st1 env_save_down) =
     [sse ''I am '', sse ''fine'', sse ''Error: database is down'']
   \<and> frames (event_generator req1 st1 (env_with stream_cancelled)) = [sse ''I am '']
   \<and> escaped (event_generator req1 st1 (env_with stream_cancelled))
       = Some (BaseException ''CancelledError'')
   \<and> frames (event_generator req1 st1 env_save_cancelled) = [sse ''I am '', sse ''fine'']
   \<and> escaped (event_generator req1 st1 env_save_cancelled)
       = Some (BaseException ''CancelledError'')"
  using one_marker_unless_uncaught [of req1 st1 "env_with stream_fine"]
    one_marker_unless_uncaught [of req1 st1 "env_with stream_cut"]
    one_marker_unless_uncaught [of req1 st1 env_save_down]
    one_marker_unless_uncaught [of req1 st1 "env_with stream_cancelled"]
    one_marker_unless_uncaught [of req1 st1 env_save_cancelled]
  by (simp add: env_with_def stream_fine_def stream_cut_def stream_cancelled_def chunks_simps
      io_ok_def env_save_down_def env_save_cancelled_def)

text \<open>
  C4 as the specification words it (every turn ends with a marker, never zero) fails on a
  turn whose task is cancelled while the generator waits on the stream: one chunk frame
  has been sent, no marker follows, and \<open>CancelledError\<close> leaves the generator.
\<close>

theorem cancelled_turn_no_marker_counterexample:
  "chat_turn req1 alice db_history (env_with stream_cancelled) =
     Inr \<lparr>frames = [sse ''I am ''],
          gen_db = db_history\<lparr>messages := messages db_history
                     @ [user_row req1 (env_with stream_cancelled)]\<rparr>,
          provider_input = [prompt_message req1],
          escaped = Some (BaseException ''CancelledError'')\<rparr>
   \<and> \<not> terminal_marker (sse ''I am '')"
  by (simp add: turn_defs example_defs event_generator_cancelled chunks_simps prompt_message_def
      user_row_def Let_def terminal_marker_def sse_def newline_def)

text \<open>
  C6.  When the buffer \<open>assistant_response\<close> is empty once the stream is exhausted, the
  generator leaves the database as it found it; and a message the generator adds is
  always an assistant message with non-empty content.
\<close>

theorem empty_reply_is_not_saved:
  "(fst (relay (events (on_messages_stream env [prompt_message req])) ([], [])) = [] \<longrightarrow>
      gen_db (event_generator req st env) = ts_db st)
   \<and> (\<forall>m \<in> set (messages (gen_db (event_generator req st env))).
         m \<in> set (messages (ts_db st)) \<or> (m_role m = ''assistant'' \<and> m_content m \<noteq> []))"
  by (auto simp: event_generator_chunks except_Exception_def relay_chunks concat_chunks_Nil
      assistant_row_def split: option.splits raised.splits simp del: concat_eq_Nil_conv)

theorem empty_reply_is_not_saved_witness:
  "fst (relay (events (on_messages_stream (env_with stream_silent) [prompt_message req1]))
          ([], [])) = []
   \<and> gen_db (event_generator req1 st1 (env_with stream_silent)) = db_history
   \<and> frames (event_generator req1 st1 (env_with stream_silent)) = [sse ''[DONE]'']"
proof -
  have h: "fst (relay (events (on_messages_stream (env_with stream_silent) [prompt_message req1]))
          ([], [])) = []"
    by (simp add: env_with_def stream_silent_def)
  have f: "frames (event_generator req1 st1 (env_with stream_silent)) = [sse ''[DONE]'']"
    by (simp add: event_generator_empty env_with_def stream_silent_def chunks_simps)
  from empty_reply_is_not_saved [of "env_with stream_silent" req1 st1] h f show ?thesis
    by (simp add: st1_def)
qed

text \<open>
  C9.  For a conversation that exists, the handler never looks at who owns it: the turn
  is the same for any two authenticated users, the history read is the conversation's
  whole history, and the user's message is appended to that conversation.
\<close>

theorem chat_stream_ignores_owner:
  assumes "find_conversation d (conv_id req) = Inr (Some conv)"
  shows "chat_turn req ua d env = chat_turn req ub d env
       \<and> chat_stream req ua d env =
           (case commit_fault (user_io env) of
              Some failure \<Rightarrow> Inl (Unhandled failure)
            | None \<Rightarrow>
                Inr \<lparr>ts_db = d\<lparr>messages := messages d @ [user_row req env]\<rparr>,
                     ts_history_messages = select_messages d (conv_id req),
                     ts_conversation_context =
                       conversation_context (select_messages d (conv_id req))\<rparr>)"
  using assms
  by (simp add: chat_turn_def chat_stream_def get_or_create_conversation_def
      find_conversation_def save_message_def user_row_def Let_def split: option.splits)

text \<open>
  C9, at a conversation of alice's used by mallory.
\<close>

theorem chat_stream_ignores_owner_witness:
  "find_conversation db_history (conv_id req1) = Inr (Some conv1)
   \<and> c_userId conv1 \<noteq> u_id mallory
   \<and> chat_turn req1 mallory db_history (env_with stream_fine)
       = chat_turn req1 alice db_history (env_with stream_fine)
   \<and> chat_stream req1 mallory db_history (env_with stream_fine) =
       Inr \<lparr>ts_db = db_history\<lparr>messages := messages db_history
                       @ [user_row req1 (env_with stream_fine)]\<rparr>,
            ts_history_messages = select_messages db_history ''c1'',
            ts_conversation_context = conversation_context (select_messages db_history ''c1'')\<rparr>"
proof -
  have h: "find_conversation db_history (conv_id req1) = Inr (Some conv1)"
    by (simp add: find_conversation_def scalar_one_or_none_def example_defs)
  have o: "c_userId conv1 \<noteq> u_id mallory"
    by (simp add: example_defs)
  have io: "commit_fault (user_io (env_with stream_fine)) = None" "conv_id req1 = ''c1''"
    by (simp_all add: example_defs)
  from chat_stream_ignores_owner [OF h, where ua = mallory and ub = alice
      and env = "env_with stream_fine"] h o io
  show ?thesis by simp
qed

text \<open>
  C3 (as the code has it).  The provider is called with one user message whose content
  is the new prompt alone.  The handler does render the history into
  \<open>conversation_context\<close>, but the generator does not read that variable: its result is
  the same from any state with the same database.  So with a non-empty history the
  provider's input is not the rendered history followed by the prompt.
\<close>

theorem provider_receives_prompt_only:
  assumes "chat_turn req u d env = Inr r"
  shows "provider_input r = [\<lparr>tm_content = prompt req, tm_source = ''user''\<rparr>]
       \<and> (\<exists>st. chat_stream req u d env = Inr st
             \<and> ts_conversation_context st = conversation_context (select_messages d (conv_id req))
             \<and> r = event_generator req st env
             \<and> (\<forall>st'. ts_db st' = ts_db st \<longrightarrow> event_generator req st' env = r))
       \<and> (select_messages d (conv_id req) \<noteq> [] \<longrightarrow>
            map tm_content (provider_input r)
              \<noteq> [spec_context (select_messages d (conv_id req)) (prompt req)])"
proof -
  from assms obtain st where st: "chat_stream req u d env = Inr st"
    and r: "r = event_generator req st env"
    by (auto simp: chat_turn_def split: sum.splits)
  have p: "provider_input r = [\<lparr>tm_content = prompt req, tm_source = ''user''\<rparr>]"
    using r by (simp add: provider_input_is_prompt prompt_message_def)
  have c: "ts_conversation_context st = conversation_context (select_messages d (conv_id req))"
    using chat_stream_Inr [OF st] by simp
  have i: "\<forall>st'. ts_db st' = ts_db st \<longrightarrow> event_generator req st' env = r"
    using r event_generator_reads_db_only by blast
  have n: "select_messages d (conv_id req) \<noteq> [] \<longrightarrow>
            map tm_content (provider_input r)
              \<noteq> [spec_context (select_messages d (conv_id req)) (prompt req)]"
    using p conversation_context_nonempty [of "select_messages d (conv_id req)"]
    by (simp add: spec_context_def)
  from p c i n st r show ?thesis by blast
qed

theorem provider_receives_prompt_only_witness:
  "chat_turn req1 alice db_history (env_with stream_cut) =
     Inr \<lparr>frames = [sse ''I am '', sse ''Error: connection lost''],
          gen_db = db_history\<lparr>messages := messages db_history
                     @ [user_row req1 (env_with stream_cut)]\<rparr>,
          provider_input = [prompt_message req1], escaped = None\<rparr>
   \<and> select_messages db_history (conv_id req1) \<noteq> []
   \<and> prompt_message req1 = \<lparr>tm_content = ''How are you?'', tm_source = ''user''\<rparr>"
proof -
  have h: "select_messages db_history (conv_id req1) \<noteq> []"
    by (simp add: select_messages_def example_defs)
  from provider_receives_prompt_only [OF ex_turn_cut] ex_turn_cut h show ?thesis
    by (simp add: prompt_message_def req1_def)
qed

text \<open>
  C3 as the specification words it fails on a conversation that has two earlier
  messages: the provider receives \<open>How are you?\<close>, not the rendered history followed by it.
\<close>

theorem provider_context_counterexample:
  "select_messages db_history (conv_id req1) \<noteq> []
   \<and> chat_turn req1 alice db_history (env_with stream_fine) =
       Inr \<lparr>frames = [sse ''I am '', sse ''fine'', sse ''[DONE]''],
            gen_db = db_history\<lparr>messages := messages db_history
                       @ [user_row req1 (env_with stream_fine),
                          assistant_row req1 (env_with stream_fine) ''I am fine'']\<rparr>,
            provider_input = [\<lparr>tm_content = ''How are you?'', tm_source = ''user''\<rparr>],
            escaped = None\<rparr>
   \<and> spec_context (select_messages db_history (conv_id req1)) (prompt req1) =
       ''Previous conversation:'' @ [newline] @ ''User: Hi'' @ [newline]
       @ ''Assistant: Hello!'' @ [newline, newline] @ ''Current user message: How are you?''
   \<and> spec_context (select_messages db_history (conv_id req1)) (prompt req1) \<noteq> ''How are you?''"
  by (simp add: turn_defs example_defs event_generator_done chunks_simps prompt_message_def
      user_row_def assistant_row_def Let_def spec_context_def conversation_context_def
      render_line_def role_label_def)

section \<open>Title generation\<close>

text \<open>
  C7.  Once the caller's conversation is found, title generation always returns a
  result; when the provider call raises (or the title agent cannot be built), the result
  is the fixed title \<open>Conversation\<close> and nothing is propagated.
\<close>

theorem title_falls_back_on_provider_failure:
  assumes "find_owned_conversation d cid u = Inr (Some conv)"
  shows "(\<exists>r. generate_conversation_title cid u d env = Inr r)
       \<and> (title_messages d cid \<noteq> [] \<and> agent_fault env = None
            \<and> on_messages env [title_request (title_messages d cid)] = Inl failure \<longrightarrow>
          generate_conversation_title cid u d env =
            Inr \<lparr>title = ''Conversation'', title_db = d,
                 title_provider_input = Some [title_request (title_messages d cid)]\<rparr>)
       \<and> (title_messages d cid \<noteq> [] \<and> agent_fault env = Some failure \<longrightarrow>
          generate_conversation_title cid u d env =
            Inr \<lparr>title = ''Conversation'', title_db = d, title_provider_input = None\<rparr>)"
  by (auto simp: title_cases [OF assms] split: sum.splits response.splits)

theorem title_falls_back_on_provider_failure_witness:
  "find_owned_conversation db_history ''c1'' alice = Inr (Some conv1)
   \<and> title_messages db_history ''c1'' \<noteq> []
   \<and> agent_fault tenv_failing = None
   \<and> on_messages tenv_failing [title_request (title_messages db_history ''c1'')]
       = Inl ''rate limit exceeded''
   \<and> generate_conversation_title ''c1'' alice db_history tenv_failing =
       Inr \<lparr>title = ''Conversation'', title_db = db_history,
            title_provider_input = Some [title_request (title_messages db_history ''c1'')]\<rparr>"
proof -
  have e: "agent_fault tenv_failing = None"
    "on_messages tenv_failing [title_request (title_messages db_history ''c1'')]
       = Inl ''rate limit exceeded''"
    by (simp_all add: tenv_failing_def)
  from title_falls_back_on_provider_failure [OF ex_owned, of tenv_failing "''rate limit exceeded''"]
    ex_owned ex_title_messages e
  show ?thesis by simp
qed

text \<open>
  C8.  The messages loaded for the title are at most ten and are the first ones of the
  conversation's messages in order of creation time; the provider, when called, gets the
  request rendered from exactly those; and a conversation without messages yields the
  placeholder \<open>New Conversation\<close> with no provider call, whatever the provider would do.
\<close>

theorem title_context_is_first_ten:
  assumes "find_owned_conversation d cid u = Inr (Some conv)"
  shows "length (title_messages d cid) \<le> 10
       \<and> prefix (title_messages d cid) (select_messages d cid)
       \<and> sorted (map m_createdAt (select_messages d cid))
       \<and> set (select_messages d cid) = {m \<in> set (messages d). m_conversationId m = cid}
       \<and> (\<forall>r. generate_conversation_title cid u d env = Inr r \<longrightarrow>
             title_provider_input r = None
             \<or> title_provider_input r = Some [title_request (title_messages d cid)])
       \<and> (select_messages d cid = [] \<longrightarrow>
             generate_conversation_title cid u d env =
               Inr \<lparr>title = ''New Conversation'', title_db = d, title_provider_input = None\<rparr>)"
proof -
  have "prefix (title_messages d cid) (select_messages d cid)"
    by (simp add: title_messages_def take_is_prefix)
  moreover have "length (title_messages d cid) \<le> 10"
    by (simp add: title_messages_def)
  moreover have "\<forall>r. generate_conversation_title cid u d env = Inr r \<longrightarrow>
             title_provider_input r = None
             \<or> title_provider_input r = Some [title_request (title_messages d cid)]"
    by (auto simp: title_cases [OF assms] split: sum.splits response.splits if_splits)
  moreover have "select_messages d cid = [] \<longrightarrow>
             generate_conversation_title cid u d env =
               Inr \<lparr>title = ''New Conversation'', title_db = d, title_provider_input = None\<rparr>"
    by (simp add: title_cases [OF assms] title_messages_def)
  ultimately show ?thesis
    using sorted_select_messages set_select_messages by blast
qed

theorem title_context_is_first_ten_witness:
  "find_owned_conversation db_long ''c1'' alice = Inr (Some conv1)
   \<and> length (select_messages db_long ''c1'') = 12
   \<and> length (title_messages db_long ''c1'') = 10
   \<and> find_owned_conversation db_empty ''c1'' alice = Inr (Some conv1)
   \<and> select_messages db_empty ''c1'' = []
   \<and> generate_conversation_title ''c1'' alice db_empty tenv_failing =
       Inr \<lparr>title = ''New Conversation'', title_db = db_empty, title_provider_input = None\<rparr>
   \<and> generate_conversation_title ''c1'' alice db_empty (tenv_answer ''Greetings'') =
       Inr \<lparr>title = ''New Conversation'', title_db = db_empty, title_provider_input = None\<rparr>"
  using title_context_is_first_ten [OF ex_owned_long, of tenv_failing]
    title_context_is_first_ten [OF ex_owned_empty, of tenv_failing]
    title_context_is_first_ten [OF ex_owned_empty, of "tenv_answer ''Greetings''"]
    ex_owned_long ex_owned_empty ex_no_messages ex_long
  by simp

text \<open>
  C10.  When the history is empty, or building the agent, calling the provider or
  committing raises, the database comes back unchanged, so the stored title is what it
  was.  A changed database differs only by the conversation's title, set to the
  cleaned answer the request returns: that is the successful path.
\<close>

theorem title_unchanged_unless_success:
  assumes "find_owned_conversation d cid u = Inr (Some conv)"
    and "generate_conversation_title cid u d env = Inr r"
  shows "(title_messages d cid = [] \<or> agent_fault env \<noteq> None
            \<or> isl (on_messages env [title_request (title_messages d cid)])
            \<or> title_commit_fault env \<noteq> None \<longrightarrow> title_db r = d)
       \<and> (title_db r \<noteq> d \<longrightarrow>
            title_db r = set_title d conv (title r)
            \<and> (\<exists>chat_message.
                  on_messages env [title_request (title_messages d cid)] = Inr (Response chat_message)
                  \<and> title r = clean_title (case chat_message of
                                              Some content \<Rightarrow> py_strip content
                                            | None \<Rightarrow> ''Conversation'')))
       \<and> (title_messages d cid \<noteq> [] \<and> agent_fault env = None
            \<and> on_messages env [title_request (title_messages d cid)] = Inr (Response chat_message)
            \<and> title_commit_fault env = None \<longrightarrow>
            title r = clean_title (case chat_message of
                                     Some content \<Rightarrow> py_strip content
                                   | None \<Rightarrow> ''Conversation'')
            \<and> title_db r = set_title d conv (title r))"
  using assms(2)
  by (auto simp: title_cases [OF assms(1)] split: sum.splits response.splits if_splits)

theorem title_unchanged_unless_success_witness:
  "find_owned_conversation db_history ''c1'' alice = Inr (Some conv1)
   \<and> generate_conversation_title ''c1'' alice db_history tenv_failing =
       Inr \<lparr>title = ''Conversation'', title_db = db_history,
            title_provider_input = Some [title_request (title_messages db_history ''c1'')]\<rparr>
   \<and> isl (on_messages tenv_failing [title_request (title_messages db_history ''c1'')])
   \<and> generate_conversation_title ''c1'' alice db_empty tenv_failing =
       Inr \<lparr>title = ''New Conversation'', title_db = db_empty, title_provider_input = None\<rparr>
   \<and> title_messages db_empty ''c1'' = []
   \<and> generate_conversation_title ''c1'' alice db_history
        (tenv_answer (dquote # ''Greetings'' @ [dquote])) =
       Inr \<lparr>title = ''Greetings'', title_db = set_title db_history conv1 ''Greetings'',
            title_provider_input = Some [title_request (title_messages db_history ''c1'')]\<rparr>
   \<and> conversations (set_title db_history conv1 ''Greetings'')
       = [conv1\<lparr>c_title := ''Greetings''\<rparr>]
   \<and> set_title db_history conv1 ''Greetings'' \<noteq> db_history"
proof -
  have i: "isl (on_messages tenv_failing [title_request (title_messages db_history ''c1'')])"
    by (simp add: tenv_failing_def)
  have t: "title_messages db_empty ''c1'' = []"
    by (simp add: title_messages_def ex_no_messages)
  have n: "set_title db_history conv1 ''Greetings'' \<noteq> db_history"
    by (simp add: set_title_def db_history_def conv1_def)
  from title_unchanged_unless_success [OF ex_owned ex_fail]
    title_unchanged_unless_success [OF ex_owned_empty ex_empty]
    title_unchanged_unless_success [OF ex_owned ex_answer]
    ex_owned ex_fail ex_empty ex_answer ex_set_title i t n
  show ?thesis by simp
qed


end
